theory Spec2Isabelle
  imports Main "HOL-Library.Sublist"
begin

section \<open>Releasing a stored message: \<open>ReleaseMessage\<close> of \<open>server/apiv1/api.go\<close>\<close>

text \<open>
  The development embeds the handler \<open>ReleaseMessage\<close> (api.go, lines 607 to 733).
  The handler is one straight-line function with early returns; it calls

  \<^item> Go's standard library (\<open>net/mail\<close>, \<open>regexp\<close>, \<open>time\<close>), the identifier
    generator \<open>shortuuid\<close>, the message store \<open>storage.GetMessageRaw\<close> and the
    transport \<open>smtpd.Send\<close>: these are collaborators, taken as parameters (the record
    \<open>Env\<close>), so that every theorem holds for whatever they return;
  \<^item> the two header rewriting functions \<open>tools.RemoveMessageHeaders\<close> and
    \<open>tools.UpdateMessageHeader\<close> of the repository's package \<open>internal/tools\<close>, which
    is not among the source files at hand: they are modelled from the specification's
    section 4.3.
\<close>

subsection \<open>Data\<close>

text \<open>\<open>mail.Address\<close> of Go's \<open>net/mail\<close>: a parsed address, display name apart.\<close>

record mail_Address =
  Name :: string
  Address :: string

text \<open>
  A raw message in the specification's data model (section 3): the header fields in
  their order in the message, and the body. The bytes of the message are \<open>render\<close> of
  it: each field on a line \<open>name: value\<close> ended by CR LF, a blank line, the body.
\<close>

record HeaderField =
  field_name :: string
  field_value :: string

record RawMessage =
  headers :: "HeaderField list"
  body :: string

definition CRLF :: string where
  "CRLF = [CHR 0x0D, CHR 0x0A]"

definition render_field :: "HeaderField \<Rightarrow> string" where
  "render_field f = field_name f @ '': '' @ field_value f @ CRLF"

definition render :: "RawMessage \<Rightarrow> string" where
  "render m = concat (map render_field (headers m)) @ CRLF @ body m"

text \<open>
  \<open>append([]byte(name + ": " + value + "\r\n"), msg...)\<close> (api.go, line 703): the bytes
  of one field line are put in front of the bytes of the message, which makes that
  field the first of the header block (\<open>render_prepend_line\<close> below).
\<close>

definition prepend_line :: "string \<Rightarrow> string \<Rightarrow> RawMessage \<Rightarrow> RawMessage" where
  "prepend_line n v msg =
     msg\<lparr>headers := \<lparr>field_name = n, field_value = v\<rparr> # headers msg\<rparr>"

text \<open>
  The message as \<open>mail.ReadMessage\<close> returns it, with the two methods of its
  \<open>Header\<close> that the handler calls: \<open>m.Header.Get(key)\<close> and
  \<open>m.Header.AddressList(key)\<close> (a list of addresses, or an error).
\<close>

record mail_Message =
  Header_Get :: "string \<Rightarrow> string"
  Header_AddressList :: "string \<Rightarrow> string + mail_Address list"

text \<open>
  \<open>config.SMTPRelayConfig\<close>: the allowlist is a compiled regular expression or
  \<open>nil\<close>; of the expression only \<open>MatchString\<close> is used, so it is held as a predicate.
  \<open>ReturnPath\<close> is the override address, empty when not configured.
\<close>

record SMTPRelayConfig =
  AllowedRecipientsRegexp :: "(string \<Rightarrow> bool) option"
  ReturnPath :: string

text \<open>\<open>releaseMessageRequestBody\<close>: the decoded JSON body of the request.\<close>

record releaseMessageRequestBody =
  To :: "string list"

text \<open>
  The collaborators of one invocation. A Go function returning \<open>(v, err)\<close> returns a
  sum here, \<open>Inl\<close> the text of the error. \<open>time_Now_RFC1123Z\<close> is
  \<open>time.Now().Format(time.RFC1123Z)\<close> and \<open>shortuuid_New\<close> is \<open>shortuuid.New()\<close>, each
  as evaluated in this invocation. \<open>smtpd_Send\<close> returns the transport's error, if any.
\<close>

record Env =
  storage_GetMessageRaw :: "string \<Rightarrow> string + RawMessage"
  mail_ParseAddress :: "string \<Rightarrow> string + mail_Address"
  mail_ReadMessage :: "RawMessage \<Rightarrow> string + mail_Message"
  config_SMTPRelayConfig :: SMTPRelayConfig
  time_Now_RFC1123Z :: string
  shortuuid_New :: string
  smtpd_Send :: "string \<Rightarrow> string list \<Rightarrow> RawMessage \<Rightarrow> string option"

text \<open>
  What the handler answers. \<open>httpError\<close> carries the text the handler writes; the
  \<open>Failure\<close> beside it names the call site by the specification's taxonomy (section 7).
  \<open>Panic\<close> is Go's run-time panic (an index out of range).
\<close>

datatype Failure =
    NotFound
  | BadRequestBody
  | InvalidAddress
  | RecipientNotAllowed
  | EmptyRecipientList
  | MalformedMessage
  | NoSenderFound
  | DeliveryFailed

datatype Response =
    OK
  | fourOFour
  | httpError Failure string
  | Panic

text \<open>
  The outcome of an invocation: the answer, and the calls of \<open>smtpd.Send\<close> it made,
  each with its envelope sender, its recipients and the message.
\<close>

record Outcome =
  response :: Response
  sent :: "(string \<times> string list \<times> RawMessage) list"

definition answer :: "Response \<Rightarrow> Outcome" where
  "answer r = \<lparr>response = r, sent = []\<rparr>"

definition failure_kind :: "Response \<Rightarrow> Failure option" where
  "failure_kind r =
     (case r of
        OK \<Rightarrow> None
      | fourOFour \<Rightarrow> Some NotFound
      | httpError k text \<Rightarrow> Some k
      | Panic \<Rightarrow> None)"

subsection \<open>Header names\<close>

text \<open>Header names are compared without regard to the case of ASCII letters.\<close>

definition lower :: "char \<Rightarrow> char" where
  "lower c =
     (case map_of (zip ''ABCDEFGHIJKLMNOPQRSTUVWXYZ'' ''abcdefghijklmnopqrstuvwxyz'') c of
        Some d \<Rightarrow> d
      | None \<Rightarrow> c)"

definition name_eq :: "string \<Rightarrow> string \<Rightarrow> bool" where
  "name_eq a b = (map lower a = map lower b)"

definition named :: "string \<Rightarrow> HeaderField \<Rightarrow> bool" where
  "named n f = name_eq (field_name f) n"

definition named_any :: "string list \<Rightarrow> HeaderField \<Rightarrow> bool" where
  "named_any ns f = list_ex (\<lambda>n. named n f) ns"

subsection \<open>The header rewriter (package \<open>internal/tools\<close>)\<close>

text \<open>
  Both functions return \<open>([]byte, error)\<close> in Go, a sum here. The specification gives
  neither operation a failure on a message that has a header block, so both return
  \<open>Inr\<close>; the handler's tests of their errors (lines 690, 699, 711 and 720) are kept
  as they are written.
\<close>

text \<open>
  Modelled from the spec: \<open>tools.RemoveMessageHeaders\<close> is not among the source files.
  Section 4.3, Remove(names): "deletes every header field whose name matches,
  case-insensitively, any name in the given set; leaves body and all other headers
  byte-for-byte unchanged; removing a name that has zero occurrences is a no-op, not an
  error."
\<close>

definition RemoveMessageHeaders :: "RawMessage \<Rightarrow> string list \<Rightarrow> string + RawMessage" where
  "RemoveMessageHeaders msg hdrs =
     Inr (msg\<lparr>headers := filter (\<lambda>f. \<not> named_any hdrs f) (headers msg)\<rparr>)"

text \<open>
  Modelled from the spec: the operation Upsert(name, value) of section 4.3, on the
  fields of a header block. "If one or more fields with that name exist, replace the
  first occurrence's value and remove any duplicates of that name that follow; if no
  field exists, append a new field at the end of the header block, preceding the
  blank-line/body boundary." The values written here (a date, an identifier) are
  short, and no folding of long values is modelled.
\<close>

fun upsert :: "string \<Rightarrow> string \<Rightarrow> HeaderField list \<Rightarrow> HeaderField list" where
  "upsert n v [] = [\<lparr>field_name = n, field_value = v\<rparr>]"
| "upsert n v (f # fs) =
     (if named n f then f\<lparr>field_value := v\<rparr> # filter (\<lambda>g. \<not> named n g) fs
      else f # upsert n v fs)"

text \<open>
  Modelled from the spec: \<open>tools.UpdateMessageHeader\<close> is not among the source files.
  It is Upsert on the header block of the message; the body is not touched.
\<close>

definition UpdateMessageHeader :: "RawMessage \<Rightarrow> string \<Rightarrow> string \<Rightarrow> string + RawMessage" where
  "UpdateMessageHeader msg n v = Inr (msg\<lparr>headers := upsert n v (headers msg)\<rparr>)"

subsection \<open>The handler\<close>

text \<open>
  Lines 645 to 657, the loop over \<open>data.To\<close>: \<open>Some\<close> is the answer of an early
  return, \<open>None\<close> is the loop running to its end.
\<close>

fun check_recipients ::
  "SMTPRelayConfig \<Rightarrow> (string \<Rightarrow> string + mail_Address) \<Rightarrow> string list \<Rightarrow> Response option"
where
  "check_recipients cfg parse [] = None"
| "check_recipients cfg parse (to # rest) =
     (case parse to of
        Inl err \<Rightarrow> Some (httpError InvalidAddress (''Invalid email address: '' @ to))
      | Inr address \<Rightarrow>
          (case AllowedRecipientsRegexp cfg of
             None \<Rightarrow> check_recipients cfg parse rest
           | Some MatchString \<Rightarrow>
               if \<not> MatchString (Address address)
               then Some (httpError RecipientNotAllowed
                            (''Mail address does not match allowlist: '' @ to))
               else check_recipients cfg parse rest))"

text \<open>
  Lines 671 to 687: the envelope sender from the headers. \<open>froms[0]\<close> is read after
  the test \<open>len(froms) == 0\<close>; \<open>senders[0]\<close> is read with no such test, and panics on
  an empty list.
\<close>

definition resolve_from :: "mail_Message \<Rightarrow> Response + string" where
  "resolve_from m =
     (case Header_AddressList m ''From'' of
        Inl err \<Rightarrow> Inl (httpError NoSenderFound err)
      | Inr froms \<Rightarrow>
          (case froms of
             [] \<Rightarrow> Inl (httpError NoSenderFound ''No From header found'')
           | from0 # _ \<Rightarrow>
               (case Header_AddressList m ''Sender'' of
                  Inl err \<Rightarrow> Inr (Address from0)
                | Inr senders \<Rightarrow>
                    (case senders of
                       [] \<Rightarrow> Inl Panic
                     | sender0 # _ \<Rightarrow> Inr (Address sender0)))))"

text \<open>Lines 695 to 707: the Return-Path and the envelope sender under an override.\<close>

definition set_return_path ::
  "SMTPRelayConfig \<Rightarrow> mail_Message \<Rightarrow> RawMessage \<Rightarrow> string \<Rightarrow> Response + (RawMessage \<times> string)"
where
  "set_return_path cfg m msg from =
     (if ReturnPath cfg \<noteq> [] then
        (if Header_Get m ''Return-Path'' \<noteq> ''<'' @ ReturnPath cfg @ ''>'' then
           (case RemoveMessageHeaders msg [''Return-Path''] of
              Inl err \<Rightarrow> Inl (httpError MalformedMessage err)
            | Inr msg' \<Rightarrow>
                Inr (prepend_line ''Return-Path'' (''<'' @ ReturnPath cfg @ ''>'') msg',
                     ReturnPath cfg))
         else Inr (msg, ReturnPath cfg))
      else Inr (msg, from))"

text \<open>Lines 709 to 723: the date and the identifier of the relayed copy.\<close>

definition refresh_date_and_id :: "Env \<Rightarrow> RawMessage \<Rightarrow> Response + RawMessage" where
  "refresh_date_and_id env msg =
     (case UpdateMessageHeader msg ''Date'' (time_Now_RFC1123Z env) of
        Inl err \<Rightarrow> Inl (httpError MalformedMessage err)
      | Inr msg1 \<Rightarrow>
          (let uid = shortuuid_New env @ ''@mailpit'' in
           case UpdateMessageHeader msg1 ''Message-Id'' (''<'' @ uid @ ''>'') of
             Inl err \<Rightarrow> Inl (httpError MalformedMessage err)
           | Inr msg2 \<Rightarrow> Inr msg2))"

text \<open>Lines 725 to 732: the one call of the transport, and the answer after it.\<close>

definition dispatch :: "Env \<Rightarrow> string \<Rightarrow> string list \<Rightarrow> RawMessage \<Rightarrow> Outcome" where
  "dispatch env from to msg =
     \<lparr>response =
        (case smtpd_Send env from to msg of
           Some err \<Rightarrow> httpError DeliveryFailed (''SMTP error: '' @ err)
         | None \<Rightarrow> OK),
      sent = [(from, to, msg)]\<rparr>"

text \<open>
  Lines 664 to 732, from \<open>mail.ReadMessage\<close> on: the message \<open>msg\<close> is loaded and the
  recipients \<open>to\<close> have passed the loop.
\<close>

definition relay :: "Env \<Rightarrow> RawMessage \<Rightarrow> string list \<Rightarrow> Outcome" where
  "relay env msg to =
     (case mail_ReadMessage env msg of
        Inl err \<Rightarrow> answer (httpError MalformedMessage err)
      | Inr m \<Rightarrow>
     (case resolve_from m of
        Inl r \<Rightarrow> answer r
      | Inr from \<Rightarrow>
     (case RemoveMessageHeaders msg [''Bcc''] of
        Inl err \<Rightarrow> answer (httpError MalformedMessage err)
      | Inr msg1 \<Rightarrow>
     (case set_return_path (config_SMTPRelayConfig env) m msg1 from of
        Inl r \<Rightarrow> answer r
      | Inr (msg2, from') \<Rightarrow>
     (case refresh_date_and_id env msg2 of
        Inl r \<Rightarrow> answer r
      | Inr msg3 \<Rightarrow> dispatch env from' to msg3)))))"

text \<open>
  The handler (lines 626 to 662, then \<open>relay\<close>): \<open>ident\<close> is the identifier in the
  request's path (\<open>id\<close> in the source), \<open>decoded\<close> what \<open>decoder.Decode(&data)\<close> gives
  for the request's body.
\<close>

definition ReleaseMessage ::
  "Env \<Rightarrow> string \<Rightarrow> string + releaseMessageRequestBody \<Rightarrow> Outcome"
where
  "ReleaseMessage env ident decoded =
     (case storage_GetMessageRaw env ident of
        Inl err \<Rightarrow> answer fourOFour
      | Inr msg \<Rightarrow>
     (case decoded of
        Inl err \<Rightarrow> answer (httpError BadRequestBody err)
      | Inr data \<Rightarrow>
     (case check_recipients (config_SMTPRelayConfig env) (mail_ParseAddress env) (To data) of
        Some r \<Rightarrow> answer r
      | None \<Rightarrow>
          if length (To data) = 0
          then answer (httpError EmptyRecipientList ''No valid addresses found'')
          else relay env msg (To data))))"

subsection \<open>Reading a message's header\<close>

text \<open>The fields of a message whose names are not among \<open>ns\<close>, in their order.\<close>

definition other_fields :: "string list \<Rightarrow> RawMessage \<Rightarrow> HeaderField list" where
  "other_fields ns m = filter (\<lambda>f. \<not> named_any ns f) (headers m)"

text \<open>The fields of a message named \<open>n\<close>, in their order, and their values.\<close>

definition fields_named :: "string \<Rightarrow> RawMessage \<Rightarrow> HeaderField list" where
  "fields_named n m = filter (named n) (headers m)"

definition header_values :: "string \<Rightarrow> RawMessage \<Rightarrow> string list" where
  "header_values n m = map field_value (fields_named n m)"

text \<open>
  The header names a release rewrites: \<open>Bcc\<close> (line 689), \<open>Date\<close> (line 710) and
  \<open>Message-Id\<close> (line 719) always, \<open>Return-Path\<close> (lines 698 and 703) only under an
  override.
\<close>

definition rewritten_names :: "SMTPRelayConfig \<Rightarrow> string list" where
  "rewritten_names cfg =
     (if ReturnPath cfg = [] then [''Bcc'', ''Date'', ''Message-Id'']
      else [''Bcc'', ''Return-Path'', ''Date'', ''Message-Id''])"

text \<open>
  The \<open>From\<close> header is usable: \<open>m.Header.AddressList("From")\<close> returns no error and
  at least one address (lines 671 to 680).
\<close>

definition usable_From :: "mail_Message \<Rightarrow> bool" where
  "usable_From m =
     (case Header_AddressList m ''From'' of Inl err \<Rightarrow> False | Inr froms \<Rightarrow> froms \<noteq> [])"

text \<open>
  A recipient string passes the loop of lines 645 to 657: it parses as one address,
  and the address alone matches the allowlist when there is one.
\<close>

definition accepted ::
  "SMTPRelayConfig \<Rightarrow> (string \<Rightarrow> string + mail_Address) \<Rightarrow> string \<Rightarrow> bool"
where
  "accepted cfg parse to =
     (case parse to of
        Inl err \<Rightarrow> False
      | Inr address \<Rightarrow>
          (case AllowedRecipientsRegexp cfg of
             None \<Rightarrow> True
           | Some MatchString \<Rightarrow> MatchString (Address address)))"


subsection \<open>Example invocations\<close>

text \<open>
  Three stored messages. The first has a \<open>Bcc\<close>, a \<open>Return-Path\<close>, a \<open>Date\<close> and a
  \<open>Message-Id\<close>; the second has a \<open>Sender\<close> and no \<open>From\<close>; the \<open>Sender\<close> of the third
  is a group with no member (RFC 5322, section 3.4).
\<close>

definition ex_msg :: RawMessage where
  "ex_msg =
     \<lparr>headers =
        [\<lparr>field_name = ''From'', field_value = ''alice@example.com''\<rparr>,
         \<lparr>field_name = ''To'', field_value = ''team@example.com''\<rparr>,
         \<lparr>field_name = ''Bcc'', field_value = ''carol@example.com''\<rparr>,
         \<lparr>field_name = ''Return-Path'', field_value = ''<bounces@example.com>''\<rparr>,
         \<lparr>field_name = ''Date'', field_value = ''Mon, 01 Jan 2024 10:00:00 +0000''\<rparr>,
         \<lparr>field_name = ''Message-Id'', field_value = ''<orig-1@example.com>''\<rparr>,
         \<lparr>field_name = ''Subject'', field_value = ''Hello''\<rparr>],
      body = ''Hi team''\<rparr>"

definition ex_msg_no_from :: RawMessage where
  "ex_msg_no_from =
     \<lparr>headers =
        [\<lparr>field_name = ''Sender'', field_value = ''list@example.com''\<rparr>,
         \<lparr>field_name = ''Subject'', field_value = ''Digest''\<rparr>],
      body = ''Hi all''\<rparr>"

definition ex_msg_group_sender :: RawMessage where
  "ex_msg_group_sender =
     \<lparr>headers =
        [\<lparr>field_name = ''From'', field_value = ''alice@example.com''\<rparr>,
         \<lparr>field_name = ''Sender'', field_value = ''undisclosed-recipients:;''\<rparr>,
         \<lparr>field_name = ''Subject'', field_value = ''Hello''\<rparr>],
      body = ''Hi team''\<rparr>"

text \<open>
  What \<open>net/mail\<close> returns on these messages and on the recipient strings of the
  examples: \<open>Get\<close> gives the value of the first field of that name, or the empty
  string; \<open>AddressList\<close> gives \<open>ErrHeaderNotPresent\<close> for an absent header, the one
  address of a header that holds a bare address, and no address and no error for the
  empty group; \<open>ParseAddress\<close> splits the display name from the address.
\<close>

definition ex_Get :: "RawMessage \<Rightarrow> string \<Rightarrow> string" where
  "ex_Get msg k = (case fields_named k msg of [] \<Rightarrow> [] | f # _ \<Rightarrow> field_value f)"

definition ex_AddressList :: "RawMessage \<Rightarrow> string \<Rightarrow> string + mail_Address list" where
  "ex_AddressList msg k =
     (if ex_Get msg k = [] then Inl ''mail: header not in message''
      else if ex_Get msg k = ''undisclosed-recipients:;'' then Inr []
      else Inr [\<lparr>Name = [], Address = ex_Get msg k\<rparr>])"

definition ex_ParseAddress :: "string \<Rightarrow> string + mail_Address" where
  "ex_ParseAddress s =
     (if s = ''Bob <bob@example.com>''
      then Inr \<lparr>Name = ''Bob'', Address = ''bob@example.com''\<rparr>
      else if s = ''bob@example.com'' \<or> s = ''eve@attacker.test''
      then Inr \<lparr>Name = [], Address = s\<rparr>
      else Inl ''mail: no angle-addr'')"

text \<open>
  An environment with no relay policy, and the policy of the examples: the allowlist
  \<open>^.*@example\.com$\<close>, and an override return-path \<open>rp\<close>.
\<close>

definition ex_env :: Env where
  "ex_env =
     \<lparr>storage_GetMessageRaw =
        (\<lambda>i. if i = ''1'' then Inr ex_msg
             else if i = ''2'' then Inr ex_msg_no_from
             else if i = ''3'' then Inr ex_msg_group_sender
             else Inl ''message not found''),
      mail_ParseAddress = ex_ParseAddress,
      mail_ReadMessage =
        (\<lambda>msg. Inr \<lparr>Header_Get = ex_Get msg, Header_AddressList = ex_AddressList msg\<rparr>),
      config_SMTPRelayConfig = \<lparr>AllowedRecipientsRegexp = None, ReturnPath = []\<rparr>,
      time_Now_RFC1123Z = ''Fri, 30 Oct 2026 12:00:00 +0000'',
      shortuuid_New = ''Zk3nCqJ8mWxGf5TbPvRh2L'',
      smtpd_Send = (\<lambda>from to msg. None)\<rparr>"

definition ex_policy :: "string \<Rightarrow> SMTPRelayConfig" where
  "ex_policy rp =
     \<lparr>AllowedRecipientsRegexp = Some (suffix ''@example.com''), ReturnPath = rp\<rparr>"

definition ex_env_policy :: "string \<Rightarrow> Env" where
  "ex_env_policy rp = ex_env\<lparr>config_SMTPRelayConfig := ex_policy rp\<rparr>"

definition ex_to :: "string list \<Rightarrow> string + releaseMessageRequestBody" where
  "ex_to rcpts = Inr \<lparr>To = rcpts\<rparr>"

text \<open>The first message as relayed with no override, and under an override.\<close>

definition ex_relayed :: RawMessage where
  "ex_relayed =
     \<lparr>headers =
        [\<lparr>field_name = ''From'', field_value = ''alice@example.com''\<rparr>,
         \<lparr>field_name = ''To'', field_value = ''team@example.com''\<rparr>,
         \<lparr>field_name = ''Return-Path'', field_value = ''<bounces@example.com>''\<rparr>,
         \<lparr>field_name = ''Date'', field_value = ''Fri, 30 Oct 2026 12:00:00 +0000''\<rparr>,
         \<lparr>field_name = ''Message-Id'', field_value = ''<Zk3nCqJ8mWxGf5TbPvRh2L@mailpit>''\<rparr>,
         \<lparr>field_name = ''Subject'', field_value = ''Hello''\<rparr>],
      body = ''Hi team''\<rparr>"

definition ex_relayed_override :: RawMessage where
  "ex_relayed_override =
     \<lparr>headers =
        [\<lparr>field_name = ''Return-Path'', field_value = ''<bounce@relay.test>''\<rparr>,
         \<lparr>field_name = ''From'', field_value = ''alice@example.com''\<rparr>,
         \<lparr>field_name = ''To'', field_value = ''team@example.com''\<rparr>,
         \<lparr>field_name = ''Date'', field_value = ''Fri, 30 Oct 2026 12:00:00 +0000''\<rparr>,
         \<lparr>field_name = ''Message-Id'', field_value = ''<Zk3nCqJ8mWxGf5TbPvRh2L@mailpit>''\<rparr>,
         \<lparr>field_name = ''Subject'', field_value = ''Hello''\<rparr>],
      body = ''Hi team''\<rparr>"

section \<open>Properties\<close>

lemma render_prepend_line:
  "render (prepend_line n v msg) = n @ '': '' @ v @ CRLF @ render msg"
  by (simp add: render_def prepend_line_def render_field_def)

subsection \<open>Header names\<close>

lemma named_refl: "named n \<lparr>field_name = n, field_value = v\<rparr>"
  by (simp add: named_def name_eq_def)

lemma named_update: "named n (f\<lparr>field_value := v\<rparr>) = named n f"
  by (simp add: named_def)

lemma named_both: "named a f \<Longrightarrow> named b f \<Longrightarrow> name_eq a b"
  by (simp add: named_def name_eq_def)

lemma named_any_mem: "named n f \<Longrightarrow> n \<in> set ns \<Longrightarrow> named_any ns f"
  by (auto simp: named_any_def list_ex_iff)

lemma named_any_single: "named_any [n] f = named n f"
  by (simp add: named_any_def)

lemma named_any_mono: "named_any hs f \<Longrightarrow> set hs \<subseteq> set ns \<Longrightarrow> named_any ns f"
  by (auto simp: named_any_def list_ex_iff)

lemma names_differ:
  "\<not> name_eq ''Date'' ''Bcc''" "\<not> name_eq ''Message-Id'' ''Bcc''"
  "\<not> name_eq ''Return-Path'' ''Bcc''" "\<not> name_eq ''Bcc'' ''Return-Path''"
  "\<not> name_eq ''Date'' ''Return-Path''" "\<not> name_eq ''Message-Id'' ''Return-Path''"
  "\<not> name_eq ''Date'' ''Message-Id''"
  by (simp_all add: name_eq_def lower_def)

lemma new_return_path_names:
  "\<not> named ''Bcc'' \<lparr>field_name = ''Return-Path'', field_value = v\<rparr>"
  "\<not> named ''Date'' \<lparr>field_name = ''Return-Path'', field_value = v\<rparr>"
  "\<not> named ''Message-Id'' \<lparr>field_name = ''Return-Path'', field_value = v\<rparr>"
  "named ''Return-Path'' \<lparr>field_name = ''Return-Path'', field_value = v\<rparr>"
  by (simp_all add: named_def name_eq_def lower_def)

subsection \<open>The header rewriter\<close>

lemma filter_upsert:
  assumes "\<And>f. named n f \<Longrightarrow> \<not> P f"
  shows "filter P (upsert n v fs) = filter P fs"
proof (induction fs)
  case Nil
  show ?case using assms [of "\<lparr>field_name = n, field_value = v\<rparr>"] by (simp add: named_refl)
next
  case (Cons f fs)
  show ?case
  proof (cases "named n f")
    case True
    have a: "\<not> P f" using assms True by blast
    have b: "\<not> P (f\<lparr>field_value := v\<rparr>)"
      using assms [of "f\<lparr>field_value := v\<rparr>"] True by (simp add: named_update)
    have c: "filter P (filter (\<lambda>g. \<not> named n g) fs) = filter P fs"
      using assms by (induction fs) auto
    show ?thesis using True a b c by simp
  next
    case False
    then show ?thesis using Cons.IH by simp
  qed
qed

lemma filter_named_upsert_other:
  "\<not> name_eq n b \<Longrightarrow> filter (named b) (upsert n v fs) = filter (named b) fs"
  by (rule filter_upsert) (blast dest: named_both)

lemma filter_other_upsert:
  "n \<in> set ns \<Longrightarrow>
   filter (\<lambda>f. \<not> named_any ns f) (upsert n v fs) = filter (\<lambda>f. \<not> named_any ns f) fs"
  by (rule filter_upsert) (simp add: named_any_mem)


lemma filter_named_remove_other:
  "\<not> name_eq b n \<Longrightarrow>
   filter (named b) (filter (\<lambda>f. \<not> named_any [n] f) fs) = filter (named b) fs"
  by (induction fs) (auto simp: named_any_single dest: named_both)

lemma filter_named_remove_same:
  "filter (named n) (filter (\<lambda>f. \<not> named_any [n] f) fs) = []"
  by (induction fs) (auto simp: named_any_single)

lemma filter_other_remove:
  "set hs \<subseteq> set ns \<Longrightarrow>
   filter (\<lambda>f. \<not> named_any ns f) (filter (\<lambda>f. \<not> named_any hs f) fs) =
   filter (\<lambda>f. \<not> named_any ns f) fs"
  by (induction fs) (auto dest: named_any_mono)

subsection \<open>What a release sends\<close>

text \<open>The header block after lines 689 to 707, and after lines 709 to 723.\<close>

lemma set_return_path_Inr:
  assumes "set_return_path cfg m msg1 from0 = Inr (msg2, f)"
  shows "f = (if ReturnPath cfg = [] then from0 else ReturnPath cfg)"
    and "body msg2 = body msg1"
    and "headers msg2 =
           (if ReturnPath cfg \<noteq> [] \<and> Header_Get m ''Return-Path'' \<noteq> ''<'' @ ReturnPath cfg @ ''>''
            then \<lparr>field_name = ''Return-Path'', field_value = ''<'' @ ReturnPath cfg @ ''>''\<rparr> #
                 filter (\<lambda>f. \<not> named_any [''Return-Path''] f) (headers msg1)
            else headers msg1)"
  using assms
  by (auto simp: set_return_path_def RemoveMessageHeaders_def prepend_line_def split: if_splits)

lemma refresh_date_and_id_Inr:
  assumes "refresh_date_and_id env msg2 = Inr m'"
  shows "body m' = body msg2"
    and "headers m' =
           upsert ''Message-Id'' (''<'' @ shortuuid_New env @ ''@mailpit>'')
             (upsert ''Date'' (time_Now_RFC1123Z env) (headers msg2))"
  using assms by (auto simp: refresh_date_and_id_def UpdateMessageHeader_def)

lemma relay_sent:
  assumes "(f, tos, m') \<in> set (sent (relay env msg to))"
  shows "\<exists>m from0 msg2.
           mail_ReadMessage env msg = Inr m \<and> resolve_from m = Inr from0 \<and>
           set_return_path (config_SMTPRelayConfig env) m
             (msg\<lparr>headers := filter (\<lambda>f. \<not> named_any [''Bcc''] f) (headers msg)\<rparr>) from0 =
             Inr (msg2, f) \<and>
           refresh_date_and_id env msg2 = Inr m' \<and> tos = to \<and>
           relay env msg to = dispatch env f to m'"
  using assms
  by (auto simp: relay_def answer_def dispatch_def RemoveMessageHeaders_def
      split: sum.splits prod.splits)

lemma ReleaseMessage_sent:
  assumes "(f, tos, m') \<in> set (sent (ReleaseMessage env ident decoded))"
  shows "\<exists>msg data.
           storage_GetMessageRaw env ident = Inr msg \<and> decoded = Inr data \<and>
           check_recipients (config_SMTPRelayConfig env) (mail_ParseAddress env) (To data) = None \<and>
           To data \<noteq> [] \<and>
           ReleaseMessage env ident decoded = relay env msg (To data)"
  using assms
  by (auto simp: ReleaseMessage_def answer_def split: sum.splits option.splits if_splits)

text \<open>Everything known of a call of the transport.\<close>

lemma release_sent:
  assumes "(f, tos, m') \<in> set (sent (ReleaseMessage env ident decoded))"
  obtains msg and data :: releaseMessageRequestBody and m from0 where
    "storage_GetMessageRaw env ident = Inr msg"
    "decoded = Inr data"
    "check_recipients (config_SMTPRelayConfig env) (mail_ParseAddress env) (To data) = None"
    "To data \<noteq> []"
    "mail_ReadMessage env msg = Inr m"
    "resolve_from m = Inr from0"
    "tos = To data"
    "f = (if ReturnPath (config_SMTPRelayConfig env) = [] then from0
          else ReturnPath (config_SMTPRelayConfig env))"
    "body m' = body msg"
    "headers m' =
       upsert ''Message-Id'' (''<'' @ shortuuid_New env @ ''@mailpit>'')
         (upsert ''Date'' (time_Now_RFC1123Z env)
           (if ReturnPath (config_SMTPRelayConfig env) \<noteq> [] \<and>
               Header_Get m ''Return-Path'' \<noteq> ''<'' @ ReturnPath (config_SMTPRelayConfig env) @ ''>''
            then \<lparr>field_name = ''Return-Path'',
                  field_value = ''<'' @ ReturnPath (config_SMTPRelayConfig env) @ ''>''\<rparr> #
                 filter (\<lambda>f. \<not> named_any [''Return-Path''] f)
                   (filter (\<lambda>f. \<not> named_any [''Bcc''] f) (headers msg))
            else filter (\<lambda>f. \<not> named_any [''Bcc''] f) (headers msg)))"
proof -
  obtain msg and data :: releaseMessageRequestBody where a:
    "storage_GetMessageRaw env ident = Inr msg" "decoded = Inr data"
    "check_recipients (config_SMTPRelayConfig env) (mail_ParseAddress env) (To data) = None"
    "To data \<noteq> []" "ReleaseMessage env ident decoded = relay env msg (To data)"
    using ReleaseMessage_sent [OF assms] by blast
  have "(f, tos, m') \<in> set (sent (relay env msg (To data)))"
    using assms a(5) by simp
  from relay_sent [OF this] obtain m from0 msg2 where b:
    "mail_ReadMessage env msg = Inr m" "resolve_from m = Inr from0"
    "set_return_path (config_SMTPRelayConfig env) m
       (msg\<lparr>headers := filter (\<lambda>f. \<not> named_any [''Bcc''] f) (headers msg)\<rparr>) from0 = Inr (msg2, f)"
    "refresh_date_and_id env msg2 = Inr m'" "tos = To data"
    by blast
  note c = set_return_path_Inr [OF b(3)] refresh_date_and_id_Inr [OF b(4)]
  show thesis
  proof (rule that [OF a(1) a(2) a(3) a(4) b(1) b(2) b(5)])
    show "f = (if ReturnPath (config_SMTPRelayConfig env) = [] then from0
          else ReturnPath (config_SMTPRelayConfig env))" by (rule c(1))
    show "body m' = body msg" using c(2) c(4) by simp
    show "headers m' =
       upsert ''Message-Id'' (''<'' @ shortuuid_New env @ ''@mailpit>'')
         (upsert ''Date'' (time_Now_RFC1123Z env)
           (if ReturnPath (config_SMTPRelayConfig env) \<noteq> [] \<and>
               Header_Get m ''Return-Path'' \<noteq> ''<'' @ ReturnPath (config_SMTPRelayConfig env) @ ''>''
            then \<lparr>field_name = ''Return-Path'',
                  field_value = ''<'' @ ReturnPath (config_SMTPRelayConfig env) @ ''>''\<rparr> #
                 filter (\<lambda>f. \<not> named_any [''Return-Path''] f)
                   (filter (\<lambda>f. \<not> named_any [''Bcc''] f) (headers msg))
            else filter (\<lambda>f. \<not> named_any [''Bcc''] f) (headers msg)))"
      using c(3) c(5) by simp
  qed
qed

subsection \<open>Example invocations, evaluated\<close>

lemma ex_policy_ReturnPath: "ReturnPath (config_SMTPRelayConfig (ex_env_policy rp)) = rp"
  by (simp add: ex_env_policy_def ex_policy_def)

lemma ex_no_policy:
  "ReleaseMessage ex_env ''1'' (ex_to [''bob@example.com'']) =
   \<lparr>response = OK, sent = [(''alice@example.com'', [''bob@example.com''], ex_relayed)]\<rparr>"
  by code_simp

lemma ex_same_return_path:
  "ReleaseMessage (ex_env_policy ''bounces@example.com'') ''1'' (ex_to [''bob@example.com'']) =
   \<lparr>response = OK, sent = [(''bounces@example.com'', [''bob@example.com''], ex_relayed)]\<rparr>"
  by code_simp

lemma ex_override:
  "ReleaseMessage (ex_env_policy ''bounce@relay.test'') ''1'' (ex_to [''Bob <bob@example.com>'']) =
   \<lparr>response = OK,
    sent = [(''bounce@relay.test'', [''Bob <bob@example.com>''], ex_relayed_override)]\<rparr>"
  by code_simp

lemma ex_not_allowed:
  "ReleaseMessage (ex_env_policy ''bounce@relay.test'') ''1''
     (ex_to [''bob@example.com'', ''eve@attacker.test'']) =
   answer (httpError RecipientNotAllowed
     ''Mail address does not match allowlist: eve@attacker.test'')"
  by code_simp

lemma ex_no_from:
  "ReleaseMessage (ex_env_policy ''bounce@relay.test'') ''2'' (ex_to [''bob@example.com'']) =
   answer (httpError NoSenderFound ''mail: header not in message'')"
  by code_simp

lemma ex_invalid_first:
  "ReleaseMessage (ex_env_policy ''bounce@relay.test'') ''1''
     (ex_to [''not an address'', ''eve@attacker.test'']) =
   answer (httpError InvalidAddress ''Invalid email address: not an address'')"
  by code_simp

lemma ex_group_sender:
  "ReleaseMessage ex_env ''3'' (ex_to [''bob@example.com'']) = answer Panic"
  by code_simp

lemma ex_storage_1: "storage_GetMessageRaw ex_env ''1'' = Inr ex_msg"
  by code_simp

lemma ex_storage_policy_1: "storage_GetMessageRaw (ex_env_policy rp) ''1'' = Inr ex_msg"
  using ex_storage_1 by (simp add: ex_env_policy_def)

lemma ex_read_policy:
  "mail_ReadMessage (ex_env_policy rp) msg =
     Inr \<lparr>Header_Get = ex_Get msg, Header_AddressList = ex_AddressList msg\<rparr>"
  by (simp add: ex_env_policy_def ex_env_def)

lemma ex_not_found:
  "storage_GetMessageRaw (ex_env_policy ''bounce@relay.test'') ''9'' = Inl ''message not found''"
  by code_simp

section \<open>The claims\<close>

subsection \<open>A failed release sends nothing\<close>

lemma relay_failure_sent:
  "failure_kind (response (relay env msg to)) = Some k \<Longrightarrow> k \<noteq> DeliveryFailed \<Longrightarrow>
   sent (relay env msg to) = []"
  by (auto simp: relay_def answer_def dispatch_def failure_kind_def
      split: sum.splits prod.splits option.splits)

text \<open>
  Claim C2. A release that ends in a failure of any kind but \<open>DeliveryFailed\<close> (the
  kinds \<open>NotFound\<close>, \<open>InvalidAddress\<close>, \<open>RecipientNotAllowed\<close>, \<open>EmptyRecipientList\<close>,
  \<open>NoSenderFound\<close>, \<open>MalformedMessage\<close>, and a request body that does not decode) has
  made no call of the transport: \<open>smtpd.Send\<close> is the last step of the handler, after
  every early return.
\<close>

theorem failed_release_sends_nothing:
  assumes "failure_kind (response (ReleaseMessage env ident decoded)) = Some k"
    and "k \<noteq> DeliveryFailed"
  shows "sent (ReleaseMessage env ident decoded) = []"
  using assms relay_failure_sent [of env _ _ k]
  by (auto simp: ReleaseMessage_def answer_def split: sum.splits option.splits if_splits)

theorem failed_release_sends_nothing_witness:
  "failure_kind (response (ReleaseMessage (ex_env_policy ''bounce@relay.test'') ''1''
      (ex_to [''bob@example.com'', ''eve@attacker.test'']))) = Some RecipientNotAllowed \<and>
   RecipientNotAllowed \<noteq> DeliveryFailed \<and>
   sent (ReleaseMessage (ex_env_policy ''bounce@relay.test'') ''1''
      (ex_to [''bob@example.com'', ''eve@attacker.test''])) = []"
proof -
  have k: "failure_kind (response (ReleaseMessage (ex_env_policy ''bounce@relay.test'') ''1''
      (ex_to [''bob@example.com'', ''eve@attacker.test'']))) = Some RecipientNotAllowed"
    by (simp add: ex_not_allowed answer_def failure_kind_def)
  have d: "RecipientNotAllowed \<noteq> DeliveryFailed" by simp
  show ?thesis using k d failed_release_sends_nothing [OF k d] by simp
qed

subsection \<open>The override is the envelope sender\<close>

text \<open>
  Claim C6. When an override return-path is configured, every call of the transport
  has the override as its envelope sender, whatever the \<open>Sender\<close> and \<open>From\<close> headers
  gave, and also when the message's \<open>Return-Path\<close> already equals the override and is
  not rewritten: line 706 stands after the inner test, not inside it.
\<close>

theorem override_is_envelope_sender:
  assumes "ReturnPath (config_SMTPRelayConfig env) \<noteq> []"
    and "(f, tos, m') \<in> set (sent (ReleaseMessage env ident decoded))"
  shows "f = ReturnPath (config_SMTPRelayConfig env)"
  using assms(2)
proof (rule release_sent)
  fix from0
  assume "f = (if ReturnPath (config_SMTPRelayConfig env) = [] then from0
          else ReturnPath (config_SMTPRelayConfig env))"
  then show ?thesis using assms(1) by simp
qed

text \<open>
  The witness is the first example message, whose \<open>Return-Path\<close> already equals the
  override and whose \<open>From\<close> is another address.
\<close>

theorem override_is_envelope_sender_witness:
  "ReturnPath (config_SMTPRelayConfig (ex_env_policy ''bounces@example.com'')) \<noteq> [] \<and>
   (''bounces@example.com'', [''bob@example.com''], ex_relayed)
     \<in> set (sent (ReleaseMessage (ex_env_policy ''bounces@example.com'') ''1''
                (ex_to [''bob@example.com'']))) \<and>
   ''bounces@example.com'' = ReturnPath (config_SMTPRelayConfig (ex_env_policy ''bounces@example.com''))"
proof -
  have a: "ReturnPath (config_SMTPRelayConfig (ex_env_policy ''bounces@example.com'')) \<noteq> []"
    by (simp add: ex_policy_ReturnPath)
  have b: "(''bounces@example.com'', [''bob@example.com''], ex_relayed)
     \<in> set (sent (ReleaseMessage (ex_env_policy ''bounces@example.com'') ''1''
                (ex_to [''bob@example.com''])))"
    by (simp add: ex_same_return_path)
  show ?thesis using a b override_is_envelope_sender [OF a b] by simp
qed

subsection \<open>When sender resolution fails\<close>

lemma relay_no_sender_iff:
  assumes "mail_ReadMessage env msg = Inr m"
  shows "failure_kind (response (relay env msg to)) = Some NoSenderFound \<longleftrightarrow> \<not> usable_From m"
  using assms
  by (auto simp: relay_def resolve_from_def usable_From_def answer_def dispatch_def
      failure_kind_def set_return_path_def refresh_date_and_id_def RemoveMessageHeaders_def
      UpdateMessageHeader_def
      split: sum.splits list.splits option.splits if_splits)

text \<open>
  Claim C3, as stated, fails: the second example message has a \<open>Sender\<close> and no
  \<open>From\<close>, an override return-path is configured, and the release fails at sender
  resolution with the error of \<open>AddressList("From")\<close>. The test of the \<open>From\<close> header
  (lines 671 to 680) comes before the \<open>Sender\<close> header and the override are looked at.
\<close>

theorem override_does_not_replace_From_counterexample:
  "ReturnPath (config_SMTPRelayConfig (ex_env_policy ''bounce@relay.test'')) = ''bounce@relay.test'' \<and>
   ex_AddressList ex_msg_no_from ''Sender'' = Inr [\<lparr>Name = [], Address = ''list@example.com''\<rparr>] \<and>
   ex_AddressList ex_msg_no_from ''From'' = Inl ''mail: header not in message'' \<and>
   ReleaseMessage (ex_env_policy ''bounce@relay.test'') ''2'' (ex_to [''bob@example.com'']) =
     answer (httpError NoSenderFound ''mail: header not in message'')"
proof -
  have "ex_AddressList ex_msg_no_from ''Sender'' = Inr [\<lparr>Name = [], Address = ''list@example.com''\<rparr>]"
    by code_simp
  moreover have "ex_AddressList ex_msg_no_from ''From'' = Inl ''mail: header not in message''"
    by code_simp
  ultimately show ?thesis by (simp add: ex_policy_ReturnPath ex_no_from)
qed

text \<open>
  Claim C3, amended. A release that reaches sender resolution (the message is loaded,
  the recipients have passed, the message parses) fails with \<open>NoSenderFound\<close> exactly
  when the \<open>From\<close> header does not parse to at least one address. Neither a \<open>Sender\<close>
  header nor a configured override changes that.
\<close>

theorem no_sender_found_iff_no_usable_From:
  assumes "storage_GetMessageRaw env ident = Inr msg"
    and "decoded = Inr data"
    and "check_recipients (config_SMTPRelayConfig env) (mail_ParseAddress env) (To data) = None"
    and "To data \<noteq> []"
    and "mail_ReadMessage env msg = Inr m"
  shows "failure_kind (response (ReleaseMessage env ident decoded)) = Some NoSenderFound
         \<longleftrightarrow> \<not> usable_From m"
  using assms relay_no_sender_iff [OF assms(5), of "To data"]
  by (simp add: ReleaseMessage_def)

theorem no_sender_found_iff_no_usable_From_witness:
  "failure_kind (response (ReleaseMessage (ex_env_policy ''bounce@relay.test'') ''2''
      (ex_to [''bob@example.com'']))) = Some NoSenderFound \<and>
   \<not> usable_From \<lparr>Header_Get = ex_Get ex_msg_no_from,
                   Header_AddressList = ex_AddressList ex_msg_no_from\<rparr>"
proof -
  let ?env = "ex_env_policy ''bounce@relay.test''"
  let ?m = "\<lparr>Header_Get = ex_Get ex_msg_no_from, Header_AddressList = ex_AddressList ex_msg_no_from\<rparr>"
  have a: "storage_GetMessageRaw ?env ''2'' = Inr ex_msg_no_from" by code_simp
  have b: "ex_to [''bob@example.com''] = Inr \<lparr>To = [''bob@example.com'']\<rparr>"
    by (simp add: ex_to_def)
  have c: "check_recipients (config_SMTPRelayConfig ?env) (mail_ParseAddress ?env)
             (To \<lparr>To = [''bob@example.com'']\<rparr>) = None" by code_simp
  have d: "To \<lparr>To = [''bob@example.com'']\<rparr> \<noteq> []" by simp
  have e: "mail_ReadMessage ?env ex_msg_no_from = Inr ?m"
    by (simp add: ex_env_policy_def ex_env_def)
  have f: "\<not> usable_From ?m" by code_simp
  show ?thesis using no_sender_found_iff_no_usable_From [OF a b c d e] f by simp
qed

subsection \<open>The recipients the transport gets\<close>

lemma check_recipients_None:
  "check_recipients cfg parse tos = None \<longleftrightarrow> list_all (accepted cfg parse) tos"
  by (induction tos) (auto simp: accepted_def split: sum.splits option.splits)

text \<open>
  Claim C4, as stated, fails: the recipient string \<open>Bob <bob@example.com>\<close> parses to
  the address \<open>bob@example.com\<close>, which is what the allowlist is matched against, and
  the transport is called with the string as the caller gave it, display name and all
  (line 725 passes \<open>data.To\<close>; the parsed \<open>address\<close> of line 646 does not leave the loop).
\<close>

theorem recipients_not_normalized_counterexample:
  "sent (ReleaseMessage (ex_env_policy ''bounce@relay.test'') ''1''
           (ex_to [''Bob <bob@example.com>''])) =
     [(''bounce@relay.test'', [''Bob <bob@example.com>''], ex_relayed_override)] \<and>
   mail_ParseAddress (ex_env_policy ''bounce@relay.test'') ''Bob <bob@example.com>'' =
     Inr \<lparr>Name = ''Bob'', Address = ''bob@example.com''\<rparr> \<and>
   [''Bob <bob@example.com>''] \<noteq> [''bob@example.com'']"
proof -
  have "mail_ParseAddress (ex_env_policy ''bounce@relay.test'') ''Bob <bob@example.com>'' =
     Inr \<lparr>Name = ''Bob'', Address = ''bob@example.com''\<rparr>"
    by code_simp
  then show ?thesis by (simp add: ex_override)
qed

text \<open>
  Claim C4, amended. The recipients passed to the transport are the caller's
  recipient strings, unchanged and in the caller's order; each of them parses as one
  address, and that address matches the allowlist when one is configured.
\<close>

theorem transport_gets_recipients_as_supplied:
  assumes "(f, tos, m') \<in> set (sent (ReleaseMessage env ident decoded))"
  shows "\<exists>data. decoded = Inr data \<and> tos = To data \<and>
           list_all (accepted (config_SMTPRelayConfig env) (mail_ParseAddress env)) tos"
  using assms
proof (rule release_sent)
  fix data :: releaseMessageRequestBody
  assume "decoded = Inr data" "tos = To data"
    "check_recipients (config_SMTPRelayConfig env) (mail_ParseAddress env) (To data) = None"
  then show ?thesis by (simp add: check_recipients_None)
qed

theorem transport_gets_recipients_as_supplied_witness:
  "(''bounce@relay.test'', [''Bob <bob@example.com>''], ex_relayed_override)
     \<in> set (sent (ReleaseMessage (ex_env_policy ''bounce@relay.test'') ''1''
                (ex_to [''Bob <bob@example.com>'']))) \<and>
   (\<exists>data. ex_to [''Bob <bob@example.com>''] = Inr data \<and> [''Bob <bob@example.com>''] = To data \<and>
      list_all (accepted (config_SMTPRelayConfig (ex_env_policy ''bounce@relay.test''))
                  (mail_ParseAddress (ex_env_policy ''bounce@relay.test'')))
        [''Bob <bob@example.com>''])"
proof -
  have b: "(''bounce@relay.test'', [''Bob <bob@example.com>''], ex_relayed_override)
     \<in> set (sent (ReleaseMessage (ex_env_policy ''bounce@relay.test'') ''1''
                (ex_to [''Bob <bob@example.com>''])))"
    by (simp add: ex_override)
  show ?thesis using b transport_gets_recipients_as_supplied [OF b] by simp
qed

subsection \<open>A recipient the allowlist rejects\<close>

lemma first_rejected_exists:
  assumes "\<not> list_all P xs"
  shows "\<exists>pre t post. xs = pre @ t # post \<and> list_all P pre \<and> \<not> P t"
  using assms
proof (induction xs)
  case Nil
  then show ?case by simp
next
  case (Cons x xs)
  show ?case
  proof (cases "P x")
    case True
    then have "\<not> list_all P xs" using Cons.prems by simp
    then obtain pre t post where "xs = pre @ t # post" "list_all P pre" "\<not> P t"
      using Cons.IH by blast
    then have "x # xs = (x # pre) @ t # post \<and> list_all P (x # pre) \<and> \<not> P t"
      using True by simp
    then show ?thesis by blast
  next
    case False
    then have "x # xs = [] @ x # xs \<and> list_all P [] \<and> \<not> P x" by simp
    then show ?thesis by blast
  qed
qed

lemma check_recipients_first:
  assumes "list_all (accepted cfg parse) pre" and "\<not> accepted cfg parse t"
  shows "check_recipients cfg parse (pre @ t # post) =
           Some (case parse t of
                   Inl err \<Rightarrow> httpError InvalidAddress (''Invalid email address: '' @ t)
                 | Inr address \<Rightarrow>
                     httpError RecipientNotAllowed
                       (''Mail address does not match allowlist: '' @ t))"
  using assms
  by (induction pre) (auto simp: accepted_def split: sum.splits option.splits)

lemma not_accepted_mem:
  assumes "AllowedRecipientsRegexp cfg = Some re" and "bad \<in> set tos"
    and "parse bad = Inr a" and "\<not> re (Address a)"
  shows "check_recipients cfg parse tos \<noteq> None"
proof -
  have "\<not> accepted cfg parse bad" using assms(1,3,4) by (simp add: accepted_def)
  then show ?thesis using assms(2) by (auto simp: check_recipients_None list_all_iff)
qed


text \<open>
  Claim C9, as stated, fails: the loop of lines 645 to 657 returns at the first
  recipient that fails either test. With an allowlist configured and the recipients
  \<open>not an address\<close> and \<open>eve@attacker.test\<close>, the second is an address outside the
  allowlist, and the release fails with \<open>InvalidAddress\<close> for the first, not with
  \<open>RecipientNotAllowed\<close>.
\<close>

theorem earlier_invalid_address_reported_counterexample:
  "AllowedRecipientsRegexp (config_SMTPRelayConfig (ex_env_policy ''bounce@relay.test'')) =
     Some (suffix ''@example.com'') \<and>
   mail_ParseAddress (ex_env_policy ''bounce@relay.test'') ''eve@attacker.test'' =
     Inr \<lparr>Name = [], Address = ''eve@attacker.test''\<rparr> \<and>
   \<not> suffix ''@example.com'' ''eve@attacker.test'' \<and>
   response (ReleaseMessage (ex_env_policy ''bounce@relay.test'') ''1''
     (ex_to [''not an address'', ''eve@attacker.test''])) =
     httpError InvalidAddress ''Invalid email address: not an address''"
proof -
  have "mail_ParseAddress (ex_env_policy ''bounce@relay.test'') ''eve@attacker.test'' =
     Inr \<lparr>Name = [], Address = ''eve@attacker.test''\<rparr>" by code_simp
  moreover have "\<not> suffix ''@example.com'' ''eve@attacker.test''" by code_simp
  moreover have "AllowedRecipientsRegexp (config_SMTPRelayConfig (ex_env_policy ''bounce@relay.test'')) =
     Some (suffix ''@example.com'')"
    by (simp add: ex_env_policy_def ex_policy_def)
  moreover have "response (ReleaseMessage (ex_env_policy ''bounce@relay.test'') ''1''
     (ex_to [''not an address'', ''eve@attacker.test''])) =
     httpError InvalidAddress ''Invalid email address: not an address''"
    by (simp add: ex_invalid_first answer_def)
  ultimately show ?thesis by blast
qed

text \<open>
  Claim C9, amended. With an allowlist configured and a recipient whose address does
  not match it, the transport is never called, and the release reports the failure it
  meets first: \<open>NotFound\<close> when the stored message is not found; otherwise the failure
  of the first recipient that does not pass the loop, which is \<open>InvalidAddress\<close> when
  that recipient does not parse and \<open>RecipientNotAllowed\<close> when it parses and does not
  match. There is such a first recipient. So the failure is \<open>RecipientNotAllowed\<close>,
  reporting the recipient outside the allowlist, when the message is found and every
  recipient before that one parses and matches.
\<close>

theorem disallowed_recipient_aborts_release:
  assumes "AllowedRecipientsRegexp (config_SMTPRelayConfig env) = Some re"
    and "decoded = Inr data"
    and "bad \<in> set (To data)"
    and "mail_ParseAddress env bad = Inr a"
    and "\<not> re (Address a)"
  shows "sent (ReleaseMessage env ident decoded) = [] \<and>
         (\<forall>err. storage_GetMessageRaw env ident = Inl err \<longrightarrow>
            response (ReleaseMessage env ident decoded) = fourOFour) \<and>
         (\<exists>pre t post.
            To data = pre @ t # post \<and>
            list_all (accepted (config_SMTPRelayConfig env) (mail_ParseAddress env)) pre \<and>
            \<not> accepted (config_SMTPRelayConfig env) (mail_ParseAddress env) t) \<and>
         (\<forall>msg pre t post.
            storage_GetMessageRaw env ident = Inr msg \<and> To data = pre @ t # post \<and>
            list_all (accepted (config_SMTPRelayConfig env) (mail_ParseAddress env)) pre \<and>
            \<not> accepted (config_SMTPRelayConfig env) (mail_ParseAddress env) t \<longrightarrow>
            response (ReleaseMessage env ident decoded) =
              (case mail_ParseAddress env t of
                 Inl err \<Rightarrow> httpError InvalidAddress (''Invalid email address: '' @ t)
               | Inr address \<Rightarrow>
                   httpError RecipientNotAllowed
                     (''Mail address does not match allowlist: '' @ t))) \<and>
         (\<forall>msg pre post.
            storage_GetMessageRaw env ident = Inr msg \<and> To data = pre @ bad # post \<and>
            list_all (accepted (config_SMTPRelayConfig env) (mail_ParseAddress env)) pre \<longrightarrow>
            response (ReleaseMessage env ident decoded) =
              httpError RecipientNotAllowed (''Mail address does not match allowlist: '' @ bad))"
proof -
  let ?cfg = "config_SMTPRelayConfig env" and ?parse = "mail_ParseAddress env"
  have nb: "\<not> accepted ?cfg ?parse bad" using assms(1,4,5) by (simp add: accepted_def)
  have n: "check_recipients ?cfg ?parse (To data) \<noteq> None"
    using assms(1,3,4,5) by (rule not_accepted_mem)
  have 1: "sent (ReleaseMessage env ident decoded) = []"
    using n assms(2) by (auto simp: ReleaseMessage_def answer_def split: sum.splits option.splits)
  have 2: "response (ReleaseMessage env ident decoded) = fourOFour"
    if "storage_GetMessageRaw env ident = Inl err" for err
    using that by (simp add: ReleaseMessage_def answer_def)
  have "\<not> list_all (accepted ?cfg ?parse) (To data)"
    using n by (simp add: check_recipients_None)
  then have 3: "\<exists>pre t post. To data = pre @ t # post \<and> list_all (accepted ?cfg ?parse) pre \<and>
                  \<not> accepted ?cfg ?parse t"
    by (rule first_rejected_exists)
  have 4: "response (ReleaseMessage env ident decoded) =
              (case ?parse t of
                 Inl err \<Rightarrow> httpError InvalidAddress (''Invalid email address: '' @ t)
               | Inr address \<Rightarrow>
                   httpError RecipientNotAllowed
                     (''Mail address does not match allowlist: '' @ t))"
    if "storage_GetMessageRaw env ident = Inr msg" "To data = pre @ t # post"
      "list_all (accepted ?cfg ?parse) pre" "\<not> accepted ?cfg ?parse t"
    for msg pre t post
    using that(1,2) assms(2) check_recipients_first [OF that(3,4), of post]
    by (simp add: ReleaseMessage_def answer_def)
  have 5: "response (ReleaseMessage env ident decoded) =
              httpError RecipientNotAllowed (''Mail address does not match allowlist: '' @ bad)"
    if "storage_GetMessageRaw env ident = Inr msg" "To data = pre @ bad # post"
      "list_all (accepted ?cfg ?parse) pre"
    for msg pre post
    using 4 [OF that nb] assms(4) by simp
  show ?thesis using 1 2 3 4 5 by blast
qed

text \<open>
  The witness: an address outside the allowlist after a recipient that passes, the same
  after a recipient that does not parse, and the same for a message that is not stored.
\<close>

theorem disallowed_recipient_aborts_release_witness:
  "sent (ReleaseMessage (ex_env_policy ''bounce@relay.test'') ''1''
      (ex_to [''bob@example.com'', ''eve@attacker.test''])) = [] \<and>
   response (ReleaseMessage (ex_env_policy ''bounce@relay.test'') ''1''
      (ex_to [''bob@example.com'', ''eve@attacker.test''])) =
     httpError RecipientNotAllowed ''Mail address does not match allowlist: eve@attacker.test'' \<and>
   sent (ReleaseMessage (ex_env_policy ''bounce@relay.test'') ''1''
      (ex_to [''not an address'', ''eve@attacker.test''])) = [] \<and>
   response (ReleaseMessage (ex_env_policy ''bounce@relay.test'') ''1''
      (ex_to [''not an address'', ''eve@attacker.test''])) =
     httpError InvalidAddress ''Invalid email address: not an address'' \<and>
   sent (ReleaseMessage (ex_env_policy ''bounce@relay.test'') ''9''
      (ex_to [''bob@example.com'', ''eve@attacker.test''])) = [] \<and>
   response (ReleaseMessage (ex_env_policy ''bounce@relay.test'') ''9''
      (ex_to [''bob@example.com'', ''eve@attacker.test''])) = fourOFour"
proof -
  let ?env = "ex_env_policy ''bounce@relay.test''"
  let ?cfg = "config_SMTPRelayConfig ?env" and ?parse = "mail_ParseAddress ?env"
  let ?eve = "''eve@attacker.test''"
  have a: "AllowedRecipientsRegexp ?cfg = Some (suffix ''@example.com'')"
    by (simp add: ex_env_policy_def ex_policy_def)
  have b1: "ex_to [''bob@example.com'', ?eve] = Inr \<lparr>To = [''bob@example.com'', ?eve]\<rparr>"
    and b2: "ex_to [''not an address'', ?eve] = Inr \<lparr>To = [''not an address'', ?eve]\<rparr>"
    by (simp_all add: ex_to_def)
  have c1: "?eve \<in> set (To \<lparr>To = [''bob@example.com'', ?eve]\<rparr>)"
    and c2: "?eve \<in> set (To \<lparr>To = [''not an address'', ?eve]\<rparr>)"
    by simp_all
  have d: "?parse ?eve = Inr \<lparr>Name = [], Address = ?eve\<rparr>" by code_simp
  have e: "\<not> suffix ''@example.com'' (Address \<lparr>Name = [], Address = ?eve\<rparr>)" by code_simp
  have f: "storage_GetMessageRaw ?env ''1'' = Inr ex_msg" by (rule ex_storage_policy_1)
  have g1: "To \<lparr>To = [''bob@example.com'', ?eve]\<rparr> = [''bob@example.com''] @ ?eve # []"
    and g2: "To \<lparr>To = [''not an address'', ?eve]\<rparr> = [] @ ''not an address'' # [?eve]"
    by simp_all
  have h1: "list_all (accepted ?cfg ?parse) [''bob@example.com'']" by code_simp
  have h2: "list_all (accepted ?cfg ?parse) []" by simp
  have i: "\<not> accepted ?cfg ?parse ''not an address''" by code_simp
  have j: "?parse ''not an address'' = Inl ''mail: no angle-addr''" by code_simp
  note t1 = disallowed_recipient_aborts_release [OF a b1 c1 d e, of "''1''"]
  note t2 = disallowed_recipient_aborts_release [OF a b2 c2 d e, of "''1''"]
  note t9 = disallowed_recipient_aborts_release [OF a b1 c1 d e, of "''9''"]
  have r1: "response (ReleaseMessage ?env ''1'' (ex_to [''bob@example.com'', ?eve])) =
        httpError RecipientNotAllowed (''Mail address does not match allowlist: '' @ ?eve)"
    using t1 f g1 h1 by blast
  have r2: "response (ReleaseMessage ?env ''1'' (ex_to [''not an address'', ?eve])) =
        (case ?parse ''not an address'' of
           Inl err \<Rightarrow> httpError InvalidAddress (''Invalid email address: '' @ ''not an address'')
         | Inr address \<Rightarrow>
             httpError RecipientNotAllowed
               (''Mail address does not match allowlist: '' @ ''not an address''))"
    using t2 f g2 h2 i by blast
  have r9: "response (ReleaseMessage ?env ''9'' (ex_to [''bob@example.com'', ?eve])) = fourOFour"
    using t9 ex_not_found by blast
  show ?thesis using t1 t2 t9 r1 r2 r9 j by simp
qed


subsection \<open>The first address of the \<open>Sender\<close> header\<close>

text \<open>
  Claim C10 says that \<open>senders[0]\<close> (line 686) is always in bounds. The handler reads
  it whenever \<open>AddressList("Sender")\<close> returns no error, and, unlike for \<open>froms\<close> (line
  677), without a test of the length: when the list is empty the handler panics. The
  third example message, whose \<open>Sender\<close> is a group with no member, is such an input.
\<close>

theorem empty_sender_list_panics:
  assumes "storage_GetMessageRaw env ident = Inr msg"
    and "decoded = Inr data"
    and "check_recipients (config_SMTPRelayConfig env) (mail_ParseAddress env) (To data) = None"
    and "To data \<noteq> []"
    and "mail_ReadMessage env msg = Inr m"
    and "usable_From m"
    and "Header_AddressList m ''Sender'' = Inr []"
  shows "ReleaseMessage env ident decoded = answer Panic"
  using assms
  by (auto simp: ReleaseMessage_def relay_def resolve_from_def usable_From_def
      split: sum.splits list.splits)

theorem empty_sender_list_panics_witness:
  "usable_From \<lparr>Header_Get = ex_Get ex_msg_group_sender,
                Header_AddressList = ex_AddressList ex_msg_group_sender\<rparr> \<and>
   ex_AddressList ex_msg_group_sender ''Sender'' = Inr [] \<and>
   ReleaseMessage ex_env ''3'' (ex_to [''bob@example.com'']) = answer Panic"
proof -
  let ?m = "\<lparr>Header_Get = ex_Get ex_msg_group_sender,
             Header_AddressList = ex_AddressList ex_msg_group_sender\<rparr>"
  have a: "storage_GetMessageRaw ex_env ''3'' = Inr ex_msg_group_sender" by code_simp
  have b: "ex_to [''bob@example.com''] = Inr \<lparr>To = [''bob@example.com'']\<rparr>"
    by (simp add: ex_to_def)
  have c: "check_recipients (config_SMTPRelayConfig ex_env) (mail_ParseAddress ex_env)
             (To \<lparr>To = [''bob@example.com'']\<rparr>) = None" by code_simp
  have d: "To \<lparr>To = [''bob@example.com'']\<rparr> \<noteq> []" by simp
  have e: "mail_ReadMessage ex_env ex_msg_group_sender = Inr ?m"
    by (simp add: ex_env_def)
  have f: "usable_From ?m" by code_simp
  have g: "ex_AddressList ex_msg_group_sender ''Sender'' = Inr []" by code_simp
  have g': "Header_AddressList ?m ''Sender'' = Inr []" using g by simp
  show ?thesis using empty_sender_list_panics [OF a b c d e f g'] f g by simp
qed


subsection \<open>The \<open>Bcc\<close> header and the fields a release leaves alone\<close>

text \<open>
  Claim C1, as stated, fails: the first example message has a \<open>Bcc\<close> and a \<open>Date\<close>
  header; the relayed copy has no \<open>Bcc\<close>, and its \<open>Date\<close>, a header other than \<open>Bcc\<close>,
  does not retain its value (line 710 sets it to the time of the release).
\<close>

theorem date_not_retained_counterexample:
  "sent (ReleaseMessage ex_env ''1'' (ex_to [''bob@example.com''])) =
     [(''alice@example.com'', [''bob@example.com''], ex_relayed)] \<and>
   fields_named ''Bcc'' ex_msg \<noteq> [] \<and>
   header_values ''Date'' ex_msg = [''Mon, 01 Jan 2024 10:00:00 +0000''] \<and>
   header_values ''Date'' ex_relayed = [''Fri, 30 Oct 2026 12:00:00 +0000''] \<and>
   other_fields [''Bcc''] ex_relayed \<noteq> other_fields [''Bcc''] ex_msg"
proof -
  have "fields_named ''Bcc'' ex_msg \<noteq> []" by code_simp
  moreover have "header_values ''Date'' ex_msg = [''Mon, 01 Jan 2024 10:00:00 +0000'']"
    by code_simp
  moreover have "header_values ''Date'' ex_relayed = [''Fri, 30 Oct 2026 12:00:00 +0000'']"
    by code_simp
  moreover have "other_fields [''Bcc''] ex_relayed \<noteq> other_fields [''Bcc''] ex_msg"
    by code_simp
  ultimately show ?thesis by (simp add: ex_no_policy)
qed

text \<open>
  Claim C1, amended. The message handed to the transport has no \<open>Bcc\<close> field, and
  its fields other than those a release rewrites (\<open>Bcc\<close>, \<open>Date\<close>, \<open>Message-Id\<close>, and
  \<open>Return-Path\<close> when an override is configured) are those of the stored message, with
  their values and in their order.
\<close>

theorem relayed_has_no_Bcc_and_keeps_other_fields:
  assumes "storage_GetMessageRaw env ident = Inr msg"
    and "(f, tos, m') \<in> set (sent (ReleaseMessage env ident decoded))"
  shows "fields_named ''Bcc'' m' = [] \<and>
         other_fields (rewritten_names (config_SMTPRelayConfig env)) m' =
         other_fields (rewritten_names (config_SMTPRelayConfig env)) msg"
  using assms(2)
proof (rule release_sent)
  fix msg0 m
  let ?rp = "ReturnPath (config_SMTPRelayConfig env)"
  let ?ns = "rewritten_names (config_SMTPRelayConfig env)"
  let ?B = "filter (\<lambda>f. \<not> named_any [''Bcc''] f) (headers msg)"
  let ?H = "if ?rp \<noteq> [] \<and> Header_Get m ''Return-Path'' \<noteq> ''<'' @ ?rp @ ''>''
            then \<lparr>field_name = ''Return-Path'', field_value = ''<'' @ ?rp @ ''>''\<rparr> #
                 filter (\<lambda>f. \<not> named_any [''Return-Path''] f) ?B
            else ?B"
  assume "storage_GetMessageRaw env ident = Inr msg0"
  then have same: "msg0 = msg" using assms(1) by simp
  assume "headers m' =
       upsert ''Message-Id'' (''<'' @ shortuuid_New env @ ''@mailpit>'')
         (upsert ''Date'' (time_Now_RFC1123Z env)
           (if ?rp \<noteq> [] \<and> Header_Get m ''Return-Path'' \<noteq> ''<'' @ ?rp @ ''>''
            then \<lparr>field_name = ''Return-Path'', field_value = ''<'' @ ?rp @ ''>''\<rparr> #
                 filter (\<lambda>f. \<not> named_any [''Return-Path''] f)
                   (filter (\<lambda>f. \<not> named_any [''Bcc''] f) (headers msg0))
            else filter (\<lambda>f. \<not> named_any [''Bcc''] f) (headers msg0)))"
  then have h: "headers m' =
       upsert ''Message-Id'' (''<'' @ shortuuid_New env @ ''@mailpit>'')
         (upsert ''Date'' (time_Now_RFC1123Z env) ?H)"
    using same by simp
  have bcc_B: "filter (named ''Bcc'') ?B = []"
    by (rule filter_named_remove_same)
  have "filter (named ''Bcc'') (filter (\<lambda>f. \<not> named_any [''Return-Path''] f) ?B) =
        filter (named ''Bcc'') ?B"
    by (rule filter_named_remove_other) (rule names_differ)
  then have "filter (named ''Bcc'') ?H = []"
    using bcc_B by (simp add: new_return_path_names del: filter_filter)
  then have no_bcc: "fields_named ''Bcc'' m' = []"
    by (simp only: fields_named_def h filter_named_upsert_other [OF names_differ(1)]
        filter_named_upsert_other [OF names_differ(2)])
  have mem: "''Bcc'' \<in> set ?ns" "''Date'' \<in> set ?ns" "''Message-Id'' \<in> set ?ns"
    "?rp \<noteq> [] \<Longrightarrow> ''Return-Path'' \<in> set ?ns"
    by (simp_all add: rewritten_names_def)
  have keep_B: "filter (\<lambda>f. \<not> named_any ?ns f) ?B = filter (\<lambda>f. \<not> named_any ?ns f) (headers msg)"
    by (rule filter_other_remove) (simp add: mem)
  have keep_H: "filter (\<lambda>f. \<not> named_any ?ns f) ?H = filter (\<lambda>f. \<not> named_any ?ns f) (headers msg)"
  proof (cases "?rp \<noteq> [] \<and> Header_Get m ''Return-Path'' \<noteq> ''<'' @ ?rp @ ''>''")
    case True
    then have rp: "''Return-Path'' \<in> set ?ns" using mem(4) by blast
    have new: "named_any ?ns \<lparr>field_name = ''Return-Path'', field_value = ''<'' @ ?rp @ ''>''\<rparr>"
      using rp by (rule named_any_mem [OF new_return_path_names(4)])
    have "filter (\<lambda>f. \<not> named_any ?ns f) (filter (\<lambda>f. \<not> named_any [''Return-Path''] f) ?B) =
          filter (\<lambda>f. \<not> named_any ?ns f) ?B"
      by (rule filter_other_remove) (simp add: rp)
    then show ?thesis using True new keep_B by (simp del: filter_filter)
  next
    case False
    then show ?thesis using keep_B by auto
  qed
  have "other_fields ?ns m' =
        filter (\<lambda>f. \<not> named_any ?ns f)
          (upsert ''Message-Id'' (''<'' @ shortuuid_New env @ ''@mailpit>'')
            (upsert ''Date'' (time_Now_RFC1123Z env) ?H))"
    by (simp only: other_fields_def h)
  also have "\<dots> = filter (\<lambda>f. \<not> named_any ?ns f) (upsert ''Date'' (time_Now_RFC1123Z env) ?H)"
    by (rule filter_other_upsert) (rule mem)
  also have "\<dots> = filter (\<lambda>f. \<not> named_any ?ns f) ?H"
    by (rule filter_other_upsert) (rule mem)
  also have "\<dots> = filter (\<lambda>f. \<not> named_any ?ns f) (headers msg)"
    by (rule keep_H)
  finally have "other_fields ?ns m' = other_fields ?ns msg"
    by (simp only: other_fields_def)
  then show ?thesis using no_bcc by simp
qed

theorem relayed_has_no_Bcc_and_keeps_other_fields_witness:
  "storage_GetMessageRaw ex_env ''1'' = Inr ex_msg \<and>
   (''alice@example.com'', [''bob@example.com''], ex_relayed)
     \<in> set (sent (ReleaseMessage ex_env ''1'' (ex_to [''bob@example.com'']))) \<and>
   fields_named ''Bcc'' ex_relayed = [] \<and>
   other_fields (rewritten_names (config_SMTPRelayConfig ex_env)) ex_relayed =
   other_fields (rewritten_names (config_SMTPRelayConfig ex_env)) ex_msg"
proof -
  have b: "(''alice@example.com'', [''bob@example.com''], ex_relayed)
     \<in> set (sent (ReleaseMessage ex_env ''1'' (ex_to [''bob@example.com''])))"
    by (simp add: ex_no_policy)
  show ?thesis
    using ex_storage_1 b relayed_has_no_Bcc_and_keeps_other_fields [OF ex_storage_1 b] by simp
qed

subsection \<open>The identifier of the relayed copy\<close>







subsection \<open>The \<open>Return-Path\<close> header under an override\<close>

text \<open>
  Claim C7. When an override is configured and \<open>m.Header.Get("Return-Path")\<close>
  already equals \<open><override>\<close>, the \<open>Return-Path\<close> fields of the message handed to the
  transport are those of the stored message, unchanged, and at their place among the
  fields that a release leaves alone: the test of line 697 skips lines 698 to 703.
\<close>

theorem matching_Return_Path_left_alone:
  assumes "storage_GetMessageRaw env ident = Inr msg"
    and "mail_ReadMessage env msg = Inr m"
    and "ReturnPath (config_SMTPRelayConfig env) \<noteq> []"
    and "Header_Get m ''Return-Path'' = ''<'' @ ReturnPath (config_SMTPRelayConfig env) @ ''>''"
    and "(f, tos, m') \<in> set (sent (ReleaseMessage env ident decoded))"
  shows "fields_named ''Return-Path'' m' = fields_named ''Return-Path'' msg \<and>
         other_fields [''Bcc'', ''Date'', ''Message-Id''] m' =
         other_fields [''Bcc'', ''Date'', ''Message-Id''] msg"
  using assms(5)
proof (rule release_sent)
  fix msg0 m0
  let ?rp = "ReturnPath (config_SMTPRelayConfig env)"
  let ?ns = "[''Bcc'', ''Date'', ''Message-Id'']"
  let ?B = "filter (\<lambda>f. \<not> named_any [''Bcc''] f) (headers msg)"
  assume "storage_GetMessageRaw env ident = Inr msg0"
  then have same: "msg0 = msg" using assms(1) by simp
  assume "mail_ReadMessage env msg0 = Inr m0"
  then have same_m: "m0 = m" using assms(2) same by simp
  assume "headers m' =
       upsert ''Message-Id'' (''<'' @ shortuuid_New env @ ''@mailpit>'')
         (upsert ''Date'' (time_Now_RFC1123Z env)
           (if ?rp \<noteq> [] \<and> Header_Get m0 ''Return-Path'' \<noteq> ''<'' @ ?rp @ ''>''
            then \<lparr>field_name = ''Return-Path'', field_value = ''<'' @ ?rp @ ''>''\<rparr> #
                 filter (\<lambda>f. \<not> named_any [''Return-Path''] f)
                   (filter (\<lambda>f. \<not> named_any [''Bcc''] f) (headers msg0))
            else filter (\<lambda>f. \<not> named_any [''Bcc''] f) (headers msg0)))"
  then have h: "headers m' =
       upsert ''Message-Id'' (''<'' @ shortuuid_New env @ ''@mailpit>'')
         (upsert ''Date'' (time_Now_RFC1123Z env) ?B)"
    using same same_m assms(4) by simp
  have "fields_named ''Return-Path'' m' = filter (named ''Return-Path'') ?B"
    by (simp only: fields_named_def h filter_named_upsert_other [OF names_differ(5)]
        filter_named_upsert_other [OF names_differ(6)])
  also have "\<dots> = filter (named ''Return-Path'') (headers msg)"
    by (rule filter_named_remove_other) (rule names_differ)
  finally have 1: "fields_named ''Return-Path'' m' = fields_named ''Return-Path'' msg"
    by (simp only: fields_named_def)
  have "other_fields ?ns m' =
        filter (\<lambda>f. \<not> named_any ?ns f)
          (upsert ''Message-Id'' (''<'' @ shortuuid_New env @ ''@mailpit>'')
            (upsert ''Date'' (time_Now_RFC1123Z env) ?B))"
    by (simp only: other_fields_def h)
  also have "\<dots> = filter (\<lambda>f. \<not> named_any ?ns f) (upsert ''Date'' (time_Now_RFC1123Z env) ?B)"
    by (rule filter_other_upsert) simp
  also have "\<dots> = filter (\<lambda>f. \<not> named_any ?ns f) ?B"
    by (rule filter_other_upsert) simp
  also have "\<dots> = filter (\<lambda>f. \<not> named_any ?ns f) (headers msg)"
    by (rule filter_other_remove) simp
  finally have 2: "other_fields ?ns m' = other_fields ?ns msg"
    by (simp only: other_fields_def)
  show ?thesis using 1 2 by simp
qed

theorem matching_Return_Path_left_alone_witness:
  "ReturnPath (config_SMTPRelayConfig (ex_env_policy ''bounces@example.com'')) \<noteq> [] \<and>
   ex_Get ex_msg ''Return-Path'' =
     ''<'' @ ReturnPath (config_SMTPRelayConfig (ex_env_policy ''bounces@example.com'')) @ ''>'' \<and>
   fields_named ''Return-Path'' ex_msg =
     [\<lparr>field_name = ''Return-Path'', field_value = ''<bounces@example.com>''\<rparr>] \<and>
   fields_named ''Return-Path'' ex_relayed = fields_named ''Return-Path'' ex_msg \<and>
   other_fields [''Bcc'', ''Date'', ''Message-Id''] ex_relayed =
   other_fields [''Bcc'', ''Date'', ''Message-Id''] ex_msg"
proof -
  let ?env = "ex_env_policy ''bounces@example.com''"
  have c: "ReturnPath (config_SMTPRelayConfig ?env) \<noteq> []"
    by (simp add: ex_policy_ReturnPath)
  have g: "ex_Get ex_msg ''Return-Path'' = ''<bounces@example.com>''" by code_simp
  have d: "Header_Get \<lparr>Header_Get = ex_Get ex_msg, Header_AddressList = ex_AddressList ex_msg\<rparr>
             ''Return-Path'' = ''<'' @ ReturnPath (config_SMTPRelayConfig ?env) @ ''>''"
    using g by (simp add: ex_policy_ReturnPath)
  have e: "(''bounces@example.com'', [''bob@example.com''], ex_relayed)
     \<in> set (sent (ReleaseMessage ?env ''1'' (ex_to [''bob@example.com''])))"
    by (simp add: ex_same_return_path)
  have k: "fields_named ''Return-Path'' ex_msg =
     [\<lparr>field_name = ''Return-Path'', field_value = ''<bounces@example.com>''\<rparr>]" by code_simp
  show ?thesis
    using c d k matching_Return_Path_left_alone [OF ex_storage_policy_1 ex_read_policy c d e]
    by simp
qed

text \<open>
  Claim C8, as stated, fails: line 703 does not call \<open>tools.UpdateMessageHeader\<close>; it
  puts the bytes of the new field in front of the message. In the relayed copy of the
  first example message the new \<open>Return-Path\<close> is the first field, before \<open>From\<close>, and
  the last field of the header block is \<open>Subject\<close>.
\<close>

theorem Return_Path_not_appended_counterexample:
  "sent (ReleaseMessage (ex_env_policy ''bounce@relay.test'') ''1''
           (ex_to [''Bob <bob@example.com>''])) =
     [(''bounce@relay.test'', [''Bob <bob@example.com>''], ex_relayed_override)] \<and>
   ex_Get ex_msg ''Return-Path'' = ''<bounces@example.com>'' \<and>
   map field_name (headers ex_relayed_override) =
     [''Return-Path'', ''From'', ''To'', ''Date'', ''Message-Id'', ''Subject''] \<and>
   last (headers ex_relayed_override) = \<lparr>field_name = ''Subject'', field_value = ''Hello''\<rparr>"
proof -
  have "ex_Get ex_msg ''Return-Path'' = ''<bounces@example.com>''" by code_simp
  moreover have "map field_name (headers ex_relayed_override) =
     [''Return-Path'', ''From'', ''To'', ''Date'', ''Message-Id'', ''Subject'']"
    by (simp add: ex_relayed_override_def)
  moreover have "last (headers ex_relayed_override) =
      \<lparr>field_name = ''Subject'', field_value = ''Hello''\<rparr>"
    by (simp add: ex_relayed_override_def)
  ultimately show ?thesis by (simp add: ex_override)
qed


text \<open>
  Claim C8, amended. When an override is configured and \<open>m.Header.Get("Return-Path")\<close>
  does not equal \<open><override>\<close>, the field \<open>Return-Path: <override>\<close> is the first field
  of the message handed to the transport, and its only \<open>Return-Path\<close> field.
\<close>

theorem override_Return_Path_is_first_field:
  assumes "storage_GetMessageRaw env ident = Inr msg"
    and "mail_ReadMessage env msg = Inr m"
    and "ReturnPath (config_SMTPRelayConfig env) \<noteq> []"
    and "Header_Get m ''Return-Path'' \<noteq> ''<'' @ ReturnPath (config_SMTPRelayConfig env) @ ''>''"
    and "(f, tos, m') \<in> set (sent (ReleaseMessage env ident decoded))"
  shows "take 1 (headers m') =
           [\<lparr>field_name = ''Return-Path'',
             field_value = ''<'' @ ReturnPath (config_SMTPRelayConfig env) @ ''>''\<rparr>] \<and>
         fields_named ''Return-Path'' m' =
           [\<lparr>field_name = ''Return-Path'',
             field_value = ''<'' @ ReturnPath (config_SMTPRelayConfig env) @ ''>''\<rparr>]"
  using assms(5)
proof (rule release_sent)
  fix msg0 m0
  let ?rp = "ReturnPath (config_SMTPRelayConfig env)"
  let ?new = "\<lparr>field_name = ''Return-Path'', field_value = ''<'' @ ?rp @ ''>''\<rparr>"
  let ?R = "filter (\<lambda>f. \<not> named_any [''Return-Path''] f)
              (filter (\<lambda>f. \<not> named_any [''Bcc''] f) (headers msg))"
  let ?d = "time_Now_RFC1123Z env"
  let ?v = "''<'' @ shortuuid_New env @ ''@mailpit>''"
  assume "storage_GetMessageRaw env ident = Inr msg0"
  then have same: "msg0 = msg" using assms(1) by simp
  assume "mail_ReadMessage env msg0 = Inr m0"
  then have same_m: "m0 = m" using assms(2) same by simp
  assume "headers m' =
       upsert ''Message-Id'' ?v
         (upsert ''Date'' ?d
           (if ?rp \<noteq> [] \<and> Header_Get m0 ''Return-Path'' \<noteq> ''<'' @ ?rp @ ''>''
            then ?new #
                 filter (\<lambda>f. \<not> named_any [''Return-Path''] f)
                   (filter (\<lambda>f. \<not> named_any [''Bcc''] f) (headers msg0))
            else filter (\<lambda>f. \<not> named_any [''Bcc''] f) (headers msg0)))"
  then have h: "headers m' = upsert ''Message-Id'' ?v (upsert ''Date'' ?d (?new # ?R))"
    using same same_m assms(3,4) by simp
  have first: "headers m' = ?new # upsert ''Message-Id'' ?v (upsert ''Date'' ?d ?R)"
    by (simp only: h upsert.simps new_return_path_names if_False)
  have "fields_named ''Return-Path'' m' = filter (named ''Return-Path'') (?new # ?R)"
    by (simp only: fields_named_def h filter_named_upsert_other [OF names_differ(5)]
        filter_named_upsert_other [OF names_differ(6)])
  also have "\<dots> = ?new # filter (named ''Return-Path'') ?R"
    by (simp only: filter.simps new_return_path_names if_True)
  also have "filter (named ''Return-Path'') ?R = []"
    by (rule filter_named_remove_same)
  finally have only: "fields_named ''Return-Path'' m' = [?new]" .
  show ?thesis using first only by simp
qed

theorem override_Return_Path_is_first_field_witness:
  "ReturnPath (config_SMTPRelayConfig (ex_env_policy ''bounce@relay.test'')) \<noteq> [] \<and>
   ex_Get ex_msg ''Return-Path'' \<noteq>
     ''<'' @ ReturnPath (config_SMTPRelayConfig (ex_env_policy ''bounce@relay.test'')) @ ''>'' \<and>
   take 1 (headers ex_relayed_override) =
     [\<lparr>field_name = ''Return-Path'', field_value = ''<bounce@relay.test>''\<rparr>] \<and>
   fields_named ''Return-Path'' ex_relayed_override =
     [\<lparr>field_name = ''Return-Path'', field_value = ''<bounce@relay.test>''\<rparr>]"
proof -
  let ?env = "ex_env_policy ''bounce@relay.test''"
  have c: "ReturnPath (config_SMTPRelayConfig ?env) \<noteq> []"
    by (simp add: ex_policy_ReturnPath)
  have g: "ex_Get ex_msg ''Return-Path'' = ''<bounces@example.com>''" by code_simp
  have d: "Header_Get \<lparr>Header_Get = ex_Get ex_msg, Header_AddressList = ex_AddressList ex_msg\<rparr>
             ''Return-Path'' \<noteq> ''<'' @ ReturnPath (config_SMTPRelayConfig ?env) @ ''>''"
    using g by (simp add: ex_policy_ReturnPath)
  have e: "(''bounce@relay.test'', [''Bob <bob@example.com>''], ex_relayed_override)
     \<in> set (sent (ReleaseMessage ?env ''1'' (ex_to [''Bob <bob@example.com>''])))"
    by (simp add: ex_override)
  show ?thesis
    using c d override_Return_Path_is_first_field [OF ex_storage_policy_1 ex_read_policy c d e]
    by (simp add: ex_policy_ReturnPath)
qed


end
